theory Spec2Isabelle
  imports Complex_Main
begin

section \<open>The notebook \<open>stroma-epithelia.ipynb\<close>\<close>

text \<open>
  The notebook is a sequence of cells. Two of them carry logic of their own: the cell that
  estimates the channel normalisation constants (a loop over the image files with numpy
  reductions) and the mask-inspection cell (which rebinds the variable \<open>labels\<close>).
  The class \<open>LabelToOnehot\<close> is imported from the module \<open>dataset\<close>, whose text is not
  part of the notebook.

  Float arithmetic is modelled exactly: a numpy float is either a real number or NaN, the
  value numpy gives to \<open>0.0 / 0\<close> (the mean of an empty axis).
\<close>

subsection \<open>Errors\<close>

datatype error =
    FileNotFoundError       \<comment> \<open>\<open>imread\<close> on a name that cannot be read\<close>
  | ValueError              \<comment> \<open>numpy: could not broadcast input array into shape (3,)\<close>
  | IndexError              \<comment> \<open>numpy: row index out of bounds\<close>
  | UnrecognizedLabelError  \<comment> \<open>named by the specification of \<open>LabelToOnehot\<close>\<close>

subsection \<open>Arrays as \<open>imread\<close> returns them\<close>

text \<open>
  \<open>imread\<close> returns an integer array of shape \<open>(H, W)\<close> for a single-channel file and of
  shape \<open>(H, W, C)\<close> for a file with several channels, with \<open>H, W \<ge> 1\<close>. The arrays are
  nested lists in row-major order, as \<open>ndarray.tolist()\<close> prints them.
\<close>

datatype ndarray =
    Arr2 "int list list"
  | Arr3 "int list list list"

type_synonym files = "string \<rightharpoonup> ndarray"

definition imread :: "files \<Rightarrow> string \<Rightarrow> error + ndarray" where
  "imread fs name = (case fs name of None \<Rightarrow> Inl FileNotFoundError | Some a \<Rightarrow> Inr a)"

subsection \<open>numpy floats and reductions\<close>

datatype npfloat = NaN | Fin real

fun np_sum :: "npfloat list \<Rightarrow> npfloat" where
  "np_sum [] = Fin 0"
| "np_sum (NaN # xs) = NaN"
| "np_sum (Fin x # xs) = (case np_sum xs of NaN \<Rightarrow> NaN | Fin s \<Rightarrow> Fin (x + s))"

definition np_mean :: "npfloat list \<Rightarrow> npfloat" where
  \<comment> \<open>\<open>np.mean\<close> of a one-dimensional float array: sum / count; an empty array gives NaN\<close>
  "np_mean xs =
     (if xs = [] then NaN
      else case np_sum xs of NaN \<Rightarrow> NaN | Fin s \<Rightarrow> Fin (s / real (length xs)))"

fun sq_dev :: "real \<Rightarrow> npfloat \<Rightarrow> npfloat" where
  "sq_dev m NaN = NaN"
| "sq_dev m (Fin x) = Fin ((x - m)\<^sup>2)"

definition np_std :: "npfloat list \<Rightarrow> npfloat" where
  \<comment> \<open>\<open>np.std\<close>, population form (ddof = 0): \<open>sqrt(mean(abs(x - x.mean())**2))\<close>\<close>
  "np_std xs =
     (case np_mean xs of
        NaN \<Rightarrow> NaN
      | Fin m \<Rightarrow> (case np_mean (map (sq_dev m) xs) of NaN \<Rightarrow> NaN | Fin v \<Rightarrow> Fin (sqrt v)))"

definition to_float :: "int \<Rightarrow> npfloat" where
  "to_float n = Fin (real_of_int n)"

text \<open>
  The result of a reduction over the axes \<open>(0, 1)\<close>: a numpy scalar for a two-dimensional
  array, a vector with one entry per channel for a three-dimensional one.
\<close>

datatype npvalue = Scalar npfloat | Vec "npfloat list"

definition nchannels :: "int list list list \<Rightarrow> nat" where
  \<comment> \<open>the last entry of the shape; an array without pixels does not come from \<open>imread\<close>\<close>
  "nchannels img = (case concat img of [] \<Rightarrow> 0 | px # _ \<Rightarrow> length px)"

definition channel :: "int list list list \<Rightarrow> nat \<Rightarrow> npfloat list" where
  \<comment> \<open>\<open>img[:, :, c]\<close> flattened, as floats\<close>
  "channel img c = map (\<lambda>px. to_float (px ! c)) (concat img)"

fun reduce_axis01 :: "(npfloat list \<Rightarrow> npfloat) \<Rightarrow> ndarray \<Rightarrow> npvalue" where
  "reduce_axis01 f (Arr2 img) = Scalar (f (map to_float (concat img)))"
| "reduce_axis01 f (Arr3 img) = Vec (map (\<lambda>c. f (channel img c)) [0..<nchannels img])"

definition np_mean_axis01 :: "ndarray \<Rightarrow> npvalue" where
  "np_mean_axis01 = reduce_axis01 np_mean"

definition np_std_axis01 :: "ndarray \<Rightarrow> npvalue" where
  "np_std_axis01 = reduce_axis01 np_std"

subsection \<open>The tables \<open>np_means\<close> and \<open>np_stds\<close>\<close>

type_synonym table = "npfloat list list"

definition np_zeros :: "nat \<Rightarrow> nat \<Rightarrow> table" where
  "np_zeros n k = replicate n (replicate k (Fin 0))"

definition np_zeros_like :: "table \<Rightarrow> table" where
  "np_zeros_like t = map (map (\<lambda>_. Fin 0)) t"

fun broadcast3 :: "npvalue \<Rightarrow> error + npfloat list" where
  \<comment> \<open>numpy's broadcasting of the assigned value to a row of shape \<open>(3,)\<close>\<close>
  "broadcast3 (Scalar x) = Inr [x, x, x]"
| "broadcast3 (Vec xs) =
     (if length xs = 3 then Inr xs
      else if length xs = 1 then Inr [xs ! 0, xs ! 0, xs ! 0]
      else Inl ValueError)"

definition set_row :: "table \<Rightarrow> nat \<Rightarrow> npvalue \<Rightarrow> error + table" where
  \<comment> \<open>\<open>t[i] = v\<close>\<close>
  "set_row t i v =
     (if i < length t
      then (case broadcast3 v of Inl e \<Rightarrow> Inl e | Inr row \<Rightarrow> Inr (t[i := row]))
      else Inl IndexError)"

definition column :: "table \<Rightarrow> nat \<Rightarrow> npfloat list" where
  "column t c = map (\<lambda>row. row ! c) t"

definition np_mean_axis0 :: "table \<Rightarrow> npfloat list" where
  \<comment> \<open>\<open>np.mean(t, axis=0)\<close> for a table of shape \<open>(n, 3)\<close>\<close>
  "np_mean_axis0 t = map (\<lambda>c. np_mean (column t c)) [0..<3]"

definition np_std_axis0 :: "table \<Rightarrow> npfloat list" where
  "np_std_axis0 t = map (\<lambda>c. np_std (column t c)) [0..<3]"

subsection \<open>The statistics cell\<close>

text \<open>
  \<^verbatim>\<open>
  imgs_list = list_files('stroma_epithelia/images')
  np_means = np.zeros((len(imgs_list), 3))
  np_stds = np.zeros_like(np_means)
  for i, img_name in enumerate(imgs_list):
      img = imread(img_name)
      np_means[i] = np.mean(img, axis=(0, 1))
      np_stds[i] = np.std(img, axis=(0, 1))

  channel_means = np.mean(np_means, axis=0)
  channel_stds = np.std(np_stds, axis=0)
  \<close>
  \<open>list_files\<close> belongs to the module \<open>util\<close>; its result \<open>imgs_list\<close> is a parameter.
\<close>

fun stats_loop :: "files \<Rightarrow> (nat \<times> string) list \<Rightarrow> table \<times> table \<Rightarrow> error + (table \<times> table)" where
  "stats_loop fs [] tabs = Inr tabs"
| "stats_loop fs ((i, img_name) # rest) (np_means, np_stds) =
     (case imread fs img_name of
        Inl e \<Rightarrow> Inl e
      | Inr img \<Rightarrow>
          (case set_row np_means i (np_mean_axis01 img) of
             Inl e \<Rightarrow> Inl e
           | Inr np_means' \<Rightarrow>
               (case set_row np_stds i (np_std_axis01 img) of
                  Inl e \<Rightarrow> Inl e
                | Inr np_stds' \<Rightarrow> stats_loop fs rest (np_means', np_stds'))))"

definition channel_stats :: "files \<Rightarrow> string list \<Rightarrow> error + (npfloat list \<times> npfloat list)" where
  \<comment> \<open>the pair \<open>(channel_means, channel_stds)\<close> the cell ends with\<close>
  "channel_stats fs imgs_list =
     (let np_means = np_zeros (length imgs_list) 3;
          np_stds = np_zeros_like np_means
      in case stats_loop fs (enumerate 0 imgs_list) (np_means, np_stds) of
           Inl e \<Rightarrow> Inl e
         | Inr (np_means', np_stds') \<Rightarrow> Inr (np_mean_axis0 np_means', np_std_axis0 np_stds'))"

subsection \<open>The transform \<open>LabelToOnehot\<close>\<close>

text \<open>
  The notebook imports \<open>LabelToOnehot\<close> from the module \<open>dataset\<close> and calls it as
  \<open>LabelToOnehot(labels)(mask)\<close>; the class itself is not in the notebook. A label mask is
  a two-dimensional integer array, written \<open>lmask\<close> below (\<open>mask\<close> is a constant of HOL);
  the label set given to the constructor is written \<open>lbls\<close>, since \<open>labels\<close> names the
  notebook's global variable.
\<close>

text \<open>
  Modelled from the spec: one pixel of the output of \<open>LabelToOnehot\<close>, whose code is
  missing. "Channel c at position (y,x) equals 1 if the mask's label at (y,x) equals the
  c-th entry of the recognized label set, else 0."
\<close>

definition onehot_pixel :: "int list \<Rightarrow> int \<Rightarrow> nat list" where
  "onehot_pixel lbls v = map (\<lambda>l. if v = l then 1 else 0) lbls"

text \<open>
  Modelled from the spec: the transform \<open>LabelToOnehot\<close> of the missing module
  \<open>dataset\<close>. "Every pixel value in the mask must belong to the recognized label set
  (else error: UnrecognizedLabelError)"; the output has shape
  \<open>[height, width, number_of_labels]\<close>.
\<close>

definition LabelToOnehot :: "int list \<Rightarrow> int list list \<Rightarrow> error + nat list list list" where
  "LabelToOnehot lbls lmask =
     (if list_all (list_all (\<lambda>v. v \<in> set lbls)) lmask
      then Inr (map (map (onehot_pixel lbls)) lmask)
      else Inl UnrecognizedLabelError)"

text \<open>
  Modelled from the spec: the decoding of its round-trip law, "index of the active
  channel, mapped back through the label set". A pixel with no active channel decodes to
  nothing.
\<close>

definition active_channel :: "nat list \<Rightarrow> nat" where
  \<comment> \<open>the index of the first channel that is 1; the number of channels if there is none\<close>
  "active_channel px = length (takeWhile (\<lambda>b. b \<noteq> 1) px)"

definition decode_pixel :: "int list \<Rightarrow> nat list \<Rightarrow> int option" where
  "decode_pixel lbls px =
     (if active_channel px < length lbls then Some (lbls ! active_channel px) else None)"

definition decode :: "int list \<Rightarrow> nat list list list \<Rightarrow> int option list list" where
  "decode lbls oh = map (map (decode_pixel lbls)) oh"

subsection \<open>The cells that read or write \<open>labels\<close>\<close>

text \<open>
  The notebook's global variables that matter here form the state; a cell is a state
  transformer. The calls into the imported modules that receive \<open>labels\<close> or \<open>n_labels\<close>
  are logged with the argument they receive. The calls themselves are taken to return;
  \<open>imread\<close> and the application of the transform to the mask can raise.
\<close>

fun flatten :: "ndarray \<Rightarrow> int list" where
  "flatten (Arr2 a) = concat a"
| "flatten (Arr3 a) = concat (concat a)"

definition np_unique :: "ndarray \<Rightarrow> int list" where
  \<comment> \<open>\<open>np.unique(a)\<close>: the sorted distinct values of the flattened array\<close>
  "np_unique a = sort (remdups (flatten a))"

definition np_unique_counts :: "ndarray \<Rightarrow> nat list" where
  \<comment> \<open>the second result of \<open>np.unique(a, return_counts=True)\<close>\<close>
  "np_unique_counts a = map (count_list (flatten a)) (np_unique a)"

datatype call =
    LabelToOnehot_init "int list"         \<comment> \<open>\<open>LabelToOnehot(labels)\<close>\<close>
  | SegmentationDataset_init "int list"   \<comment> \<open>\<open>SegmentationDataset(data_root, labels, ...)\<close>\<close>
  | FCNs_init nat                         \<comment> \<open>\<open>FCNs(pretrained_net=vgg_model, n_class=n_labels)\<close>\<close>
  | visualize_model_call "int list"       \<comment> \<open>\<open>visualize_model(fcn_model, dataloaders, labels)\<close>\<close>

record notebook =
  crop_size :: nat
  labels :: "int list"
  n_labels :: nat
  label_counts :: "nat list"
  calls :: "call list"

definition mask_name :: string where
  "mask_name = ''stroma_epithelia/masks/0.1_110_2_1.png''"

definition cell_config :: "notebook \<Rightarrow> notebook" where
  \<comment> \<open>\<open>crop_size = 224; labels = (0, 1, 2); n_labels = len(labels)\<close>\<close>
  "cell_config s =
     (let s1 = s\<lparr>crop_size := 224\<rparr>;
          s2 = s1\<lparr>labels := [0, 1, 2]\<rparr>
      in s2\<lparr>n_labels := length (labels s2)\<rparr>)"

definition cell_dataloaders :: "notebook \<Rightarrow> notebook" where
  \<comment> \<open>the cell that builds \<open>data_transforms\<close> and \<open>image_datasets\<close>\<close>
  "cell_dataloaders s =
     s\<lparr>calls := calls s @ [LabelToOnehot_init (labels s), SegmentationDataset_init (labels s)]\<rparr>"

text \<open>
  \<^verbatim>\<open>
  mask = imread(mask_name)
  LO = LabelToOnehot(labels)
  mask_oh = LO(mask)
  ...
  labels, label_counts = np.unique(mask, return_counts=True)
  \<close>
  The transform is a parameter \<open>onehot\<close> of the cell: whatever the class of the module
  \<open>dataset\<close> computes, the cell goes on when the call returns and stops when it raises.
\<close>

definition cell_inspect ::
  "files \<Rightarrow> (int list \<Rightarrow> ndarray \<Rightarrow> error + 'oh) \<Rightarrow> notebook \<Rightarrow> error + notebook" where
  "cell_inspect fs onehot s =
     (case imread fs mask_name of
        Inl e \<Rightarrow> Inl e
      | Inr lmask \<Rightarrow>
          (let s1 = s\<lparr>calls := calls s @ [LabelToOnehot_init (labels s)]\<rparr>
           in case onehot (labels s) lmask of
                Inl e \<Rightarrow> Inl e
              | Inr mask_oh \<Rightarrow>
                  Inr (s1\<lparr>labels := np_unique lmask, label_counts := np_unique_counts lmask\<rparr>)))"

definition cell_model :: "notebook \<Rightarrow> notebook" where
  "cell_model s = s\<lparr>calls := calls s @ [FCNs_init (n_labels s)]\<rparr>"

definition cell_train :: "notebook \<Rightarrow> notebook" where
  \<comment> \<open>\<open>train_model(...)\<close>, then \<open>visualize_model(fcn_model, dataloaders, labels)\<close>\<close>
  "cell_train s = s\<lparr>calls := calls s @ [visualize_model_call (labels s)]\<rparr>"

definition run_notebook ::
  "files \<Rightarrow> (int list \<Rightarrow> ndarray \<Rightarrow> error + 'oh) \<Rightarrow> notebook \<Rightarrow> error + notebook" where
  \<comment> \<open>the cells in the order of the notebook\<close>
  "run_notebook fs onehot s =
     (case cell_inspect fs onehot (cell_dataloaders (cell_config s)) of
        Inl e \<Rightarrow> Inl e
      | Inr s' \<Rightarrow> Inr (cell_train (cell_model s')))"

fun LabelToOnehot_call :: "int list \<Rightarrow> ndarray \<Rightarrow> error + nat list list list" where
  \<comment> \<open>the modelled transform applied to what \<open>imread\<close> returns; it takes label masks only\<close>
  "LabelToOnehot_call ls (Arr2 m) = LabelToOnehot ls m"
| "LabelToOnehot_call ls (Arr3 m) = Inl ValueError"

subsection \<open>The estimator in the specification's words\<close>

text \<open>
  The specification describes the same computation without tables, loops or NaN: per image
  and per channel the mean and the standard deviation of the samples over height and
  width; per channel the mean of the per-image means and the standard deviation of the
  per-image standard deviations. These definitions follow that description, over the
  reals; the refinement theorem compares them with \<open>channel_stats\<close>.
\<close>

definition mean :: "real list \<Rightarrow> real" where
  "mean xs = sum_list xs / real (length xs)"

definition stddev :: "real list \<Rightarrow> real" where
  "stddev xs = sqrt (mean (map (\<lambda>x. (x - mean xs)\<^sup>2) xs))"

definition samples :: "int list list list \<Rightarrow> nat \<Rightarrow> real list" where
  \<comment> \<open>the samples of channel \<open>c\<close> at every position \<open>(y, x)\<close>\<close>
  "samples img c = [real_of_int (px ! c). row \<leftarrow> img, px \<leftarrow> row]"

definition image_channel_means :: "int list list list \<Rightarrow> real list" where
  "image_channel_means img = map (\<lambda>c. mean (samples img c)) [0..<3]"

definition image_channel_stds :: "int list list list \<Rightarrow> real list" where
  "image_channel_stds img = map (\<lambda>c. stddev (samples img c)) [0..<3]"

definition columnwise :: "(real list \<Rightarrow> real) \<Rightarrow> real list list \<Rightarrow> real list" where
  \<comment> \<open>a reduction applied to each of the three columns of an \<open>N \<times> 3\<close> table\<close>
  "columnwise f tbl = map (\<lambda>c. f (map (\<lambda>row. row ! c) tbl)) [0..<3]"

definition spec_channel_means :: "int list list list list \<Rightarrow> real list" where
  "spec_channel_means imgs = columnwise mean (map image_channel_means imgs)"

definition spec_channel_stds :: "int list list list list \<Rightarrow> real list" where
  "spec_channel_stds imgs = columnwise stddev (map image_channel_stds imgs)"

definition pooled_std :: "int list list list list \<Rightarrow> nat \<Rightarrow> real" where
  \<comment> \<open>the standard deviation of channel \<open>c\<close> over the pixels of all images together\<close>
  "pooled_std imgs c = stddev (concat (map (\<lambda>img. samples img c) imgs))"

subsection \<open>Well-formed inputs\<close>

definition image_array :: "int list list list \<Rightarrow> bool" where
  \<comment> \<open>a three-dimensional array with at least one pixel: rows of one width, pixels of one size\<close>
  "image_array img \<longleftrightarrow>
     concat img \<noteq> [] \<and>
     list_all (\<lambda>row. length row = length (concat img) div length img) img \<and>
     list_all (\<lambda>px. length px = nchannels img) (concat img)"

definition rgb_image :: "int list list list \<Rightarrow> bool" where
  \<comment> \<open>at least one pixel, and three samples in every pixel\<close>
  "rgb_image img \<longleftrightarrow> concat img \<noteq> [] \<and> list_all (\<lambda>px. length px = 3) (concat img)"

definition decoded_rgb :: "files \<Rightarrow> string list \<Rightarrow> int list list list list \<Rightarrow> bool" where
  \<comment> \<open>the files named by \<open>names\<close> decode, in this order, to the 3-channel images \<open>imgs\<close>\<close>
  "decoded_rgb fs names imgs =
     list_all2 (\<lambda>name img. fs name = Some (Arr3 img) \<and> rgb_image img) names imgs"

definition constant_image :: "nat \<Rightarrow> nat \<Rightarrow> int \<Rightarrow> int list list list" where
  \<comment> \<open>an \<open>h \<times> w\<close> image whose every sample is \<open>v\<close>\<close>
  "constant_image h w v = replicate h (replicate w (replicate 3 v))"

subsection \<open>Auxiliary notions of the proofs\<close>

definition means_row :: "int list list list \<Rightarrow> npfloat list" where
  "means_row img = map (\<lambda>c. np_mean (channel img c)) [0..<3]"

definition stds_row :: "int list list list \<Rightarrow> npfloat list" where
  "stds_row img = map (\<lambda>c. np_std (channel img c)) [0..<3]"

definition fill :: "nat \<Rightarrow> 'a list \<Rightarrow> 'a list \<Rightarrow> 'a list" where
  \<comment> \<open>the table \<open>t\<close> with \<open>rows\<close> written from index \<open>k\<close> on\<close>
  "fill k rows t = take k t @ rows @ drop (k + length rows) t"

subsection \<open>Example inputs\<close>

definition no_files :: files where
  "no_files = Map.empty"

definition img_a :: "int list list list" where
  "img_a = [[[0, 0, 0], [2, 2, 2]]]"

definition img_b :: "int list list list" where
  "img_b = [[[4, 4, 4]]]"

definition two_files :: files where
  "two_files = [''a.png'' \<mapsto> Arr3 img_a, ''b.png'' \<mapsto> Arr3 img_b]"

definition flat_files :: files where
  "flat_files = [''c1.png'' \<mapsto> Arr3 (constant_image 2 2 9), ''c2.png'' \<mapsto> Arr3 (constant_image 2 2 9)]"

definition gray_files :: files where
  "gray_files = [''gray.png'' \<mapsto> Arr2 [[7, 7], [7, 7]]]"

definition img_rgba :: "int list list list" where
  "img_rgba = [[[1, 2, 3, 255], [4, 5, 6, 255]]]"

definition rgba_files :: files where
  "rgba_files = [''rgba.png'' \<mapsto> Arr3 img_rgba]"

definition mask_ex :: "int list list" where
  "mask_ex = [[0, 2], [1, 1]]"

definition onehot_ex :: "nat list list list" where
  "onehot_ex = [[[1, 0, 0], [0, 0, 1]], [[0, 1, 0], [0, 1, 0]]]"

definition mask_ones :: "int list list" where
  "mask_ones = [[1, 1], [1, 1]]"

definition mask_bad :: "int list list" where
  "mask_bad = [[0, 1], [5, 2]]"

definition mask_files :: files where
  "mask_files = [mask_name \<mapsto> Arr2 [[0, 1], [1, 0]]]"

definition fresh :: notebook where
  "fresh = \<lparr>crop_size = 0, labels = [], n_labels = 0, label_counts = [], calls = []\<rparr>"

section \<open>Theorems\<close>

subsection \<open>Reductions on finite values\<close>

lemma np_sum_Fin: "np_sum (map Fin xs) = Fin (sum_list xs)"
  by (induction xs) simp_all

lemma np_mean_Fin: "xs \<noteq> [] \<Longrightarrow> np_mean (map Fin xs) = Fin (mean xs)"
  by (simp add: np_mean_def np_sum_Fin mean_def)

lemma sq_dev_Fin: "map (sq_dev m) (map Fin xs) = map Fin (map (\<lambda>x. (x - m)\<^sup>2) xs)"
  by simp

lemma np_std_Fin: "xs \<noteq> [] \<Longrightarrow> np_std (map Fin xs) = Fin (stddev xs)"
  by (simp add: np_std_def np_mean_Fin sq_dev_Fin stddev_def del: map_map)

lemma np_sum_replicate: "np_sum (replicate n (Fin x)) = Fin (real n * x)"
  by (induction n) (simp_all add: algebra_simps)

lemma np_mean_replicate: "0 < n \<Longrightarrow> np_mean (replicate n (Fin x)) = Fin x"
  by (simp add: np_mean_def np_sum_replicate)

lemma np_std_replicate: "0 < n \<Longrightarrow> np_std (replicate n (Fin x)) = Fin 0"
  by (simp add: np_std_def np_mean_replicate)

subsection \<open>One 3-channel image\<close>

lemma channel_samples: "channel img c = map Fin (samples img c)"
  by (simp add: channel_def samples_def to_float_def map_concat comp_def)

lemma samples_nonempty: "rgb_image img \<Longrightarrow> samples img c \<noteq> []"
  by (simp add: samples_def rgb_image_def)

lemma nchannels_rgb: "rgb_image img \<Longrightarrow> nchannels img = 3"
  by (auto simp: rgb_image_def nchannels_def split: list.splits)

lemma mean_axis01_rgb: "rgb_image img \<Longrightarrow> np_mean_axis01 (Arr3 img) = Vec (means_row img)"
  by (simp add: np_mean_axis01_def nchannels_rgb means_row_def)

lemma std_axis01_rgb: "rgb_image img \<Longrightarrow> np_std_axis01 (Arr3 img) = Vec (stds_row img)"
  by (simp add: np_std_axis01_def nchannels_rgb stds_row_def)

lemma means_row_rgb:
  "rgb_image img \<Longrightarrow> means_row img = map Fin (image_channel_means img)"
  by (simp add: means_row_def image_channel_means_def channel_samples np_mean_Fin samples_nonempty)

lemma stds_row_rgb:
  "rgb_image img \<Longrightarrow> stds_row img = map Fin (image_channel_stds img)"
  by (simp add: stds_row_def image_channel_stds_def channel_samples np_std_Fin samples_nonempty)

subsection \<open>The loop writes one row per image\<close>

lemma set_row_vec3:
  "i < length t \<Longrightarrow> length r = 3 \<Longrightarrow> set_row t i (Vec r) = Inr (t[i := r])"
  by (simp add: set_row_def)

lemma fill_step: "k < length t \<Longrightarrow> fill (Suc k) rows (t[k := r]) = fill k (r # rows) t"
  by (simp add: fill_def take_Suc_conv_app_nth)

lemma fill_all: "length rows = length t \<Longrightarrow> fill 0 rows t = rows"
  by (simp add: fill_def)

lemma stats_loop_rgb:
  "list_all2 (\<lambda>name img. fs name = Some (Arr3 img) \<and> rgb_image img) names imgs \<Longrightarrow>
   k + length names \<le> length ms \<Longrightarrow> length ss = length ms \<Longrightarrow>
   stats_loop fs (enumerate k names) (ms, ss) =
     Inr (fill k (map means_row imgs) ms, fill k (map stds_row imgs) ss)"
proof (induction names imgs arbitrary: k ms ss rule: list_all2_induct)
  case Nil
  then show ?case by (simp add: fill_def)
next
  case (Cons name names img imgs)
  then have k: "k < length ms" "k < length ss" by simp_all
  have "stats_loop fs (enumerate k (name # names)) (ms, ss) =
        stats_loop fs (enumerate (Suc k) names) (ms[k := means_row img], ss[k := stds_row img])"
    using Cons.hyps(1) k
    by (simp add: imread_def mean_axis01_rgb std_axis01_rgb set_row_vec3 means_row_def stds_row_def)
  also have "\<dots> = Inr (fill (Suc k) (map means_row imgs) (ms[k := means_row img]),
                      fill (Suc k) (map stds_row imgs) (ss[k := stds_row img]))"
    using Cons.prems by (intro Cons.IH) simp_all
  finally show ?case using k by (simp add: fill_step)
qed

lemma channel_stats_rgb:
  assumes "list_all2 (\<lambda>name img. fs name = Some (Arr3 img) \<and> rgb_image img) names imgs"
  shows "channel_stats fs names =
           Inr (np_mean_axis0 (map means_row imgs), np_std_axis0 (map stds_row imgs))"
proof -
  have len: "length imgs = length names"
    using assms by (simp add: list_all2_lengthD)
  have "stats_loop fs (enumerate 0 names)
          (np_zeros (length names) 3, np_zeros_like (np_zeros (length names) 3)) =
        Inr (fill 0 (map means_row imgs) (np_zeros (length names) 3),
             fill 0 (map stds_row imgs) (np_zeros_like (np_zeros (length names) 3)))"
    using assms by (intro stats_loop_rgb) (simp_all add: np_zeros_def np_zeros_like_def)
  then show ?thesis
    using len by (simp add: channel_stats_def fill_all np_zeros_def np_zeros_like_def)
qed

subsection \<open>The estimator computes what the specification describes\<close>

text \<open>
  C3: for a non-empty list of files that decode to 3-channel images, the statistics cell
  raises nothing and returns, per channel, the mean over the images of the per-image
  channel means and the standard deviation over the images of the per-image channel
  standard deviations: the column-wise mean of the \<open>N \<times> 3\<close> table of means and the
  column-wise standard deviation of the \<open>N \<times> 3\<close> table of standard deviations.
\<close>

theorem channel_stats_refines_spec:
  assumes "decoded_rgb fs imgs_list imgs" and "imgs_list \<noteq> []"
  shows "channel_stats fs imgs_list =
           Inr (map Fin (spec_channel_means imgs), map Fin (spec_channel_stds imgs))"
proof -
  have all: "list_all2 (\<lambda>name img. fs name = Some (Arr3 img) \<and> rgb_image img) imgs_list imgs"
    using assms(1) by (simp add: decoded_rgb_def)
  then have rgb: "\<forall>img\<in>set imgs. rgb_image img"
    by (auto simp: list_all2_conv_all_nth in_set_conv_nth)
  have ne: "imgs \<noteq> []"
    using all assms(2) by (auto dest: list_all2_lengthD)
  have m: "map means_row imgs = map (\<lambda>img. map Fin (image_channel_means img)) imgs"
    using rgb by (simp add: means_row_rgb)
  have s: "map stds_row imgs = map (\<lambda>img. map Fin (image_channel_stds img)) imgs"
    using rgb by (simp add: stds_row_rgb)
  have cm: "np_mean (column (map means_row imgs) c) =
            Fin (mean (map (\<lambda>row. row ! c) (map image_channel_means imgs)))" if "c < 3" for c
  proof -
    have "column (map means_row imgs) c =
          map Fin (map (\<lambda>row. row ! c) (map image_channel_means imgs))"
      unfolding m using that by (simp add: column_def image_channel_means_def)
    then show ?thesis using ne by (simp add: np_mean_Fin del: map_map)
  qed
  have cs: "np_std (column (map stds_row imgs) c) =
            Fin (stddev (map (\<lambda>row. row ! c) (map image_channel_stds imgs)))" if "c < 3" for c
  proof -
    have "column (map stds_row imgs) c =
          map Fin (map (\<lambda>row. row ! c) (map image_channel_stds imgs))"
      unfolding s using that by (simp add: column_def image_channel_stds_def)
    then show ?thesis using ne by (simp add: np_std_Fin del: map_map)
  qed
  have "np_mean_axis0 (map means_row imgs) = map Fin (spec_channel_means imgs)"
    by (simp add: np_mean_axis0_def spec_channel_means_def columnwise_def cm)
  moreover have "np_std_axis0 (map stds_row imgs) = map Fin (spec_channel_stds imgs)"
    by (simp add: np_std_axis0_def spec_channel_stds_def columnwise_def cs)
  ultimately show ?thesis
    using channel_stats_rgb [OF all] by simp
qed

lemma spec_channel_means_two: "spec_channel_means [img_a, img_b] = [5/2, 5/2, 5/2]"
  by (simp add: spec_channel_means_def columnwise_def image_channel_means_def samples_def
      mean_def img_a_def img_b_def upt_rec)

lemma spec_channel_stds_two: "spec_channel_stds [img_a, img_b] = [1/2, 1/2, 1/2]"
  by (simp add: spec_channel_stds_def columnwise_def image_channel_stds_def samples_def
      stddev_def mean_def img_a_def img_b_def upt_rec power2_eq_square real_sqrt_divide)

text \<open>
  Two files: one image with the pixels 0 and 2, one with the single pixel 4. The per-image
  means are 1 and 4, the per-image standard deviations 1 and 0; the cell returns 5/2 and 1/2.
\<close>

theorem channel_stats_refines_spec_witness:
  "decoded_rgb two_files [''a.png'', ''b.png''] [img_a, img_b] \<and>
   channel_stats two_files [''a.png'', ''b.png''] =
     Inr ([Fin (5/2), Fin (5/2), Fin (5/2)], [Fin (1/2), Fin (1/2), Fin (1/2)])"
proof -
  have h: "decoded_rgb two_files [''a.png'', ''b.png''] [img_a, img_b]"
    by (simp add: decoded_rgb_def two_files_def img_a_def img_b_def rgb_image_def)
  have ne: "[''a.png'', ''b.png''] \<noteq> []"
    by simp
  show ?thesis
    using h channel_stats_refines_spec [OF h ne]
    by (simp add: spec_channel_means_two spec_channel_stds_two)
qed

text \<open>
  The returned standard deviation is not the pooled one: over the pixels 0, 2 and 4 of the
  two example images together the standard deviation is \<open>sqrt (8/3)\<close>, not 1/2.
\<close>

lemma channel_stds_not_pooled:
  "spec_channel_stds [img_a, img_b] ! 0 = 1/2 \<and>
   pooled_std [img_a, img_b] 0 = sqrt (8/3) \<and> sqrt (8/3) \<noteq> (1/2::real)"
proof -
  have "sqrt (8/3) \<noteq> (1/2::real)"
  proof
    assume e: "sqrt (8/3) = (1/2::real)"
    have "(sqrt (8/3))\<^sup>2 = (8/3::real)" by simp
    then have "(1/2::real)\<^sup>2 = 8/3" unfolding e .
    then show False by (simp add: power2_eq_square)
  qed
  moreover have "spec_channel_stds [img_a, img_b] ! 0 = 1/2"
    by (simp add: spec_channel_stds_two)
  moreover have "pooled_std [img_a, img_b] 0 = sqrt (8/3)"
    by (simp add: pooled_std_def samples_def stddev_def mean_def img_a_def img_b_def
        power2_eq_square)
  ultimately show ?thesis by simp
qed

subsection \<open>The empty image list\<close>

text \<open>
  C4, as the specification states it: on an empty image list the estimator raises
  \<open>InvalidInputError\<close>. The cell has no such check. With no files the loop body never
  runs, both tables have shape \<open>(0, 3)\<close>, and the two column reductions return: the
  counterexample shows the run ends without any error.
\<close>

theorem channel_stats_empty_counterexample:
  "\<not> isl (channel_stats no_files [])"
  by (simp add: channel_stats_def np_zeros_def np_zeros_like_def)

text \<open>
  C4, amended: on an empty image list the estimator raises nothing and returns two
  vectors of three NaN each, whatever the files are.
\<close>

theorem channel_stats_empty:
  "channel_stats fs [] = Inr ([NaN, NaN, NaN], [NaN, NaN, NaN])"
  by (simp add: channel_stats_def np_zeros_def np_zeros_like_def np_mean_axis0_def
      np_std_axis0_def column_def np_mean_def np_std_def upt_rec)

subsection \<open>Images with another channel count\<close>

text \<open>
  C7, as the specification states it: an image whose channel count differs from 3 makes
  the estimator raise. The cell has no channel check of its own; what raises is numpy's
  assignment \<open>np_means[i] = ...\<close> when the value does not broadcast to shape \<open>(3,)\<close>.
  A single-channel image reduces to a scalar, which broadcasts: the counterexample is a
  list with one 2 x 2 grayscale image of value 7, aggregated as if all three channels
  were 7.
\<close>

theorem channel_stats_gray_counterexample:
  "channel_stats gray_files [''gray.png''] = Inr ([Fin 7, Fin 7, Fin 7], [Fin 0, Fin 0, Fin 0])"
  by (simp add: channel_stats_def gray_files_def np_zeros_def np_zeros_like_def imread_def
      np_mean_axis01_def np_std_axis01_def set_row_def to_float_def np_mean_def np_std_def
      np_mean_axis0_def np_std_axis0_def column_def upt_rec)

lemma stats_loop_bad_channels:
  assumes "name \<in> set names" and "fs name = Some (Arr3 img)"
    and "nchannels img \<noteq> 3" and "nchannels img \<noteq> 1"
  shows "isl (stats_loop fs (enumerate k names) tabs)"
  using assms(1)
proof (induction names arbitrary: k tabs)
  case Nil
  then show ?case by simp
next
  case (Cons a names)
  obtain ms ss where tabs: "tabs = (ms, ss)" by (cases tabs)
  show ?case
  proof (cases "a = name")
    case True
    then show ?thesis
      using assms(2-4) by (simp add: tabs imread_def np_mean_axis01_def set_row_def)
  next
    case False
    with Cons.prems have "name \<in> set names" by simp
    then show ?thesis
      using Cons.IH by (simp add: tabs split: sum.splits)
  qed
qed

text \<open>
  C7, amended: when the image list contains a file that decodes to a three-dimensional
  array (with at least one pixel) whose channel count is neither 3 nor 1, the estimator
  raises an error and returns no statistics.
\<close>

theorem channel_stats_bad_channels:
  assumes "name \<in> set imgs_list" and "fs name = Some (Arr3 img)" and "image_array img"
    and "nchannels img \<noteq> 3" and "nchannels img \<noteq> 1"
  shows "isl (channel_stats fs imgs_list)"
proof -
  have "isl (stats_loop fs (enumerate 0 imgs_list)
          (np_zeros (length imgs_list) 3, np_zeros_like (np_zeros (length imgs_list) 3)))"
    using assms(1,2,4,5) by (rule stats_loop_bad_channels)
  then obtain e where "stats_loop fs (enumerate 0 imgs_list)
          (np_zeros (length imgs_list) 3, np_zeros_like (np_zeros (length imgs_list) 3)) = Inl e"
    by (auto simp: isl_def)
  then show ?thesis
    by (simp add: channel_stats_def Let_def)
qed

theorem channel_stats_bad_channels_witness:
  "''rgba.png'' \<in> set [''rgba.png''] \<and> rgba_files ''rgba.png'' = Some (Arr3 img_rgba) \<and>
   image_array img_rgba \<and> nchannels img_rgba = 4 \<and>
   isl (channel_stats rgba_files [''rgba.png''])"
proof -
  have h1: "''rgba.png'' \<in> set [''rgba.png'']" by simp
  have h2: "rgba_files ''rgba.png'' = Some (Arr3 img_rgba)" by (simp add: rgba_files_def)
  have h3: "nchannels img_rgba = 4" by (simp add: nchannels_def img_rgba_def)
  have h4: "image_array img_rgba" by (simp add: image_array_def nchannels_def img_rgba_def)
  have "isl (channel_stats rgba_files [''rgba.png''])"
    using h1 h2 h4 by (rule channel_stats_bad_channels) (simp_all add: h3)
  then show ?thesis using h1 h2 h3 h4 by simp
qed

subsection \<open>Identical single-colour images\<close>

lemma concat_replicate_replicate: "concat (replicate h (replicate w x)) = replicate (h * w) x"
  by (induction h) (simp_all add: replicate_add)

lemma channel_constant:
  "c < 3 \<Longrightarrow> channel (constant_image h w v) c = replicate (h * w) (Fin (real_of_int v))"
  by (simp add: channel_def constant_image_def concat_replicate_replicate to_float_def)

lemma rgb_constant: "0 < h \<Longrightarrow> 0 < w \<Longrightarrow> rgb_image (constant_image h w v)"
  by (simp add: rgb_image_def constant_image_def concat_replicate_replicate list_all_iff)

lemma means_row_constant:
  "0 < h \<Longrightarrow> 0 < w \<Longrightarrow> means_row (constant_image h w v) = replicate 3 (Fin (real_of_int v))"
  by (simp add: means_row_def channel_constant np_mean_replicate upt_rec numeral_3_eq_3)

lemma stds_row_constant:
  "0 < h \<Longrightarrow> 0 < w \<Longrightarrow> stds_row (constant_image h w v) = replicate 3 (Fin 0)"
  by (simp add: stds_row_def channel_constant np_std_replicate upt_rec numeral_3_eq_3)

lemma column_replicate: "c < 3 \<Longrightarrow> column (replicate n (replicate 3 x)) c = replicate n x"
  by (simp add: column_def)

text \<open>
  C8: for a non-empty list of files that all decode to the same \<open>h \<times> w\<close> image
  (\<open>h, w \<ge> 1\<close>) whose every sample is \<open>v\<close>, the estimator returns the mean \<open>v\<close> and the
  standard deviation 0 for each of the three channels, exactly.
\<close>

theorem channel_stats_constant:
  assumes "imgs_list \<noteq> []" and "0 < h" and "0 < w"
    and "\<forall>name\<in>set imgs_list. fs name = Some (Arr3 (constant_image h w v))"
  shows "channel_stats fs imgs_list =
           Inr ([Fin (real_of_int v), Fin (real_of_int v), Fin (real_of_int v)],
                [Fin 0, Fin 0, Fin 0])"
proof -
  let ?n = "length imgs_list"
  let ?imgs = "replicate ?n (constant_image h w v)"
  have n: "0 < ?n" using assms(1) by simp
  have "list_all2 (\<lambda>name img. fs name = Some (Arr3 img) \<and> rgb_image img) imgs_list ?imgs"
    using assms by (simp add: list_all2_conv_all_nth rgb_constant)
  then have "channel_stats fs imgs_list =
               Inr (np_mean_axis0 (map means_row ?imgs), np_std_axis0 (map stds_row ?imgs))"
    by (rule channel_stats_rgb)
  moreover have "np_mean_axis0 (map means_row ?imgs) =
                   [Fin (real_of_int v), Fin (real_of_int v), Fin (real_of_int v)]"
    using n assms(2,3)
    by (simp add: np_mean_axis0_def means_row_constant column_replicate np_mean_replicate upt_rec)
  moreover have "np_std_axis0 (map stds_row ?imgs) = [Fin 0, Fin 0, Fin 0]"
    using n assms(2,3)
    by (simp add: np_std_axis0_def stds_row_constant column_replicate np_std_replicate upt_rec)
  ultimately show ?thesis by simp
qed

theorem channel_stats_constant_witness:
  "channel_stats flat_files [''c1.png'', ''c2.png''] =
     Inr ([Fin 9, Fin 9, Fin 9], [Fin 0, Fin 0, Fin 0])"
proof -
  have h: "\<forall>name\<in>set [''c1.png'', ''c2.png'']. flat_files name = Some (Arr3 (constant_image 2 2 9))"
    by (simp add: flat_files_def)
  have "channel_stats flat_files [''c1.png'', ''c2.png''] =
          Inr ([Fin (real_of_int 9), Fin (real_of_int 9), Fin (real_of_int 9)],
               [Fin 0, Fin 0, Fin 0])"
    by (rule channel_stats_constant [OF _ _ _ h]) simp_all
  then show ?thesis by simp
qed

subsection \<open>The one-hot transform\<close>

lemma LabelToOnehot_valid:
  "\<forall>row\<in>set lmask. \<forall>v\<in>set row. v \<in> set lbls \<Longrightarrow>
   LabelToOnehot lbls lmask = Inr (map (map (onehot_pixel lbls)) lmask)"
  by (simp add: LabelToOnehot_def list_all_iff)

lemma LabelToOnehot_ex: "LabelToOnehot [0, 1, 2] mask_ex = Inr onehot_ex"
  by (simp add: LabelToOnehot_def mask_ex_def onehot_ex_def onehot_pixel_def)

lemma mask_ex_valid: "\<forall>row\<in>set mask_ex. \<forall>v\<in>set row. v \<in> set [0, 1, 2]"
  by (simp add: mask_ex_def)

lemma active_channel_onehot:
  "v \<in> set lbls \<Longrightarrow>
   active_channel (onehot_pixel lbls v) < length lbls \<and>
   lbls ! active_channel (onehot_pixel lbls v) = v"
  by (induction lbls) (auto simp: active_channel_def onehot_pixel_def)

lemma decode_onehot_pixel:
  "v \<in> set lbls \<Longrightarrow> decode_pixel lbls (onehot_pixel lbls v) = Some v"
  by (simp add: decode_pixel_def active_channel_onehot)

text \<open>
  C1: for a label mask whose pixels all belong to the label set, the transform returns a
  one-hot mask, and decoding every pixel of it (the label at the index of the active
  channel) gives back the mask.
\<close>

theorem onehot_roundtrip:
  assumes "\<forall>row\<in>set lmask. \<forall>v\<in>set row. v \<in> set lbls"
  shows "\<exists>oh. LabelToOnehot lbls lmask = Inr oh \<and> decode lbls oh = map (map Some) lmask"
proof -
  have "decode lbls (map (map (onehot_pixel lbls)) lmask) = map (map Some) lmask"
    using assms by (simp add: decode_def decode_onehot_pixel)
  then show ?thesis
    using assms by (simp add: LabelToOnehot_valid)
qed

theorem onehot_roundtrip_witness:
  "LabelToOnehot [0, 1, 2] mask_ex = Inr onehot_ex \<and>
   decode [0, 1, 2] onehot_ex = [[Some 0, Some 2], [Some 1, Some 1]]"
proof -
  obtain oh where oh: "LabelToOnehot [0, 1, 2] mask_ex = Inr oh"
      "decode [0, 1, 2] oh = map (map Some) mask_ex"
    using onehot_roundtrip [OF mask_ex_valid] by blast
  from oh(1) have "oh = onehot_ex"
    by (simp add: LabelToOnehot_ex)
  with oh(2) have "decode [0, 1, 2] onehot_ex = [[Some 0, Some 2], [Some 1, Some 1]]"
    by (simp add: mask_ex_def)
  then show ?thesis
    by (simp add: LabelToOnehot_ex)
qed

lemma onehot_pixel_position:
  assumes "distinct lbls" and "c < length lbls"
  shows "onehot_pixel lbls (lbls ! c) = (replicate (length lbls) 0)[c := 1]"
proof (rule nth_equalityI)
  show "length (onehot_pixel lbls (lbls ! c)) = length ((replicate (length lbls) 0)[c := 1])"
    by (simp add: onehot_pixel_def)
next
  fix i assume "i < length (onehot_pixel lbls (lbls ! c))"
  then have i: "i < length lbls" by (simp add: onehot_pixel_def)
  then show "onehot_pixel lbls (lbls ! c) ! i = (replicate (length lbls) 0)[c := 1] ! i"
    using assms by (auto simp: onehot_pixel_def nth_list_update nth_eq_iff_index_eq)
qed

text \<open>
  C2: for a label set without repetition and a label mask whose pixels all belong to it,
  the output has the height and width of the mask, and at every position \<open>(y, x)\<close> the
  pixel of the output is the vector of \<open>k\<close> zeros with a single 1 at the index \<open>c\<close> at which
  the label set holds the mask's label: exactly one channel is 1, the others are 0.
\<close>

theorem onehot_invariant:
  assumes "distinct lbls" and "\<forall>row\<in>set lmask. \<forall>v\<in>set row. v \<in> set lbls"
  shows "\<exists>oh. LabelToOnehot lbls lmask = Inr oh \<and> length oh = length lmask \<and>
           (\<forall>y<length lmask. length (oh ! y) = length (lmask ! y) \<and>
              (\<forall>x<length (lmask ! y). \<exists>c<length lbls.
                 lbls ! c = lmask ! y ! x \<and>
                 oh ! y ! x = (replicate (length lbls) 0)[c := 1]))"
proof -
  let ?oh = "map (map (onehot_pixel lbls)) lmask"
  have px: "\<exists>c<length lbls. lbls ! c = lmask ! y ! x \<and>
              ?oh ! y ! x = (replicate (length lbls) 0)[c := 1]"
    if "y < length lmask" and "x < length (lmask ! y)" for y x
  proof -
    have "lmask ! y ! x \<in> set lbls"
      using assms(2) that by (meson nth_mem)
    then obtain c where c: "c < length lbls" "lbls ! c = lmask ! y ! x"
      by (auto simp: in_set_conv_nth)
    have "?oh ! y ! x = onehot_pixel lbls (lbls ! c)"
      using that c by simp
    then show ?thesis
      using c onehot_pixel_position [OF assms(1) c(1)] by auto
  qed
  have "LabelToOnehot lbls lmask = Inr ?oh"
    using assms(2) by (rule LabelToOnehot_valid)
  moreover have "length ?oh = length lmask" by simp
  moreover have "\<forall>y<length lmask. length (?oh ! y) = length (lmask ! y) \<and>
       (\<forall>x<length (lmask ! y). \<exists>c<length lbls. lbls ! c = lmask ! y ! x \<and>
                 ?oh ! y ! x = (replicate (length lbls) 0)[c := 1])"
    using px by simp
  ultimately show ?thesis by blast
qed

text \<open>
  In the example mask the pixel at row 0, column 1 has the label 2, which stands at index 2
  of \<open>(0, 1, 2)\<close>: the output pixel there is \<open>[0, 0, 1]\<close>.
\<close>

theorem onehot_invariant_witness:
  "distinct [0, 1, 2 :: int] \<and> LabelToOnehot [0, 1, 2] mask_ex = Inr onehot_ex \<and>
   length onehot_ex = 2 \<and> length (onehot_ex ! 0) = 2 \<and>
   (\<exists>c<3. [0, 1, 2] ! c = mask_ex ! 0 ! 1 \<and> onehot_ex ! 0 ! 1 = (replicate 3 0)[c := 1]) \<and>
   onehot_ex ! 0 ! 1 = [0, 0, 1]"
proof -
  have d: "distinct [0, 1, 2 :: int]" by simp
  obtain oh where oh: "LabelToOnehot [0, 1, 2] mask_ex = Inr oh" "length oh = length mask_ex"
      "\<forall>y<length mask_ex. length (oh ! y) = length (mask_ex ! y) \<and>
         (\<forall>x<length (mask_ex ! y). \<exists>c<length [0, 1, 2 :: int].
            [0, 1, 2] ! c = mask_ex ! y ! x \<and>
            oh ! y ! x = (replicate (length [0, 1, 2 :: int]) 0)[c := 1])"
    using onehot_invariant [OF d mask_ex_valid] by blast
  from oh(1) have eq: "oh = onehot_ex"
    by (simp add: LabelToOnehot_ex)
  have y: "0 < length mask_ex" and x: "1 < length (mask_ex ! 0)"
    by (simp_all add: mask_ex_def)
  have len: "length [0, 1, 2 :: int] = 3" by simp
  from oh(3) y x have
    "\<exists>c<length [0, 1, 2 :: int]. [0, 1, 2] ! c = mask_ex ! 0 ! 1 \<and>
       oh ! 0 ! 1 = (replicate (length [0, 1, 2 :: int]) 0)[c := 1]"
    by blast
  then have "\<exists>c<3. [0, 1, 2] ! c = mask_ex ! 0 ! 1 \<and> onehot_ex ! 0 ! 1 = (replicate 3 0)[c := 1]"
    unfolding eq len .
  moreover have "length onehot_ex = 2" "length (onehot_ex ! 0) = 2" "onehot_ex ! 0 ! 1 = [0, 0, 1]"
    by (simp_all add: onehot_ex_def)
  ultimately show ?thesis
    using d LabelToOnehot_ex by blast
qed

text \<open>
  C5: a label mask with at least one pixel whose value is not in the label set makes the
  transform raise \<open>UnrecognizedLabelError\<close>.
\<close>

theorem onehot_unrecognized:
  assumes "row \<in> set lmask" and "v \<in> set row" and "v \<notin> set lbls"
  shows "LabelToOnehot lbls lmask = Inl UnrecognizedLabelError"
  using assms by (auto simp: LabelToOnehot_def list_all_iff)

theorem onehot_unrecognized_witness:
  "[5, 2] \<in> set mask_bad \<and> (5::int) \<in> set [5, 2] \<and> (5::int) \<notin> set [0, 1, 2] \<and>
   LabelToOnehot [0, 1, 2] mask_bad = Inl UnrecognizedLabelError"
proof -
  have h1: "[5, 2] \<in> set mask_bad" by (simp add: mask_bad_def)
  have h2: "(5::int) \<in> set [5, 2]" by simp
  have h3: "(5::int) \<notin> set [0, 1, 2]" by simp
  show ?thesis
    using h1 h2 h3 onehot_unrecognized [OF h1 h2 h3] by simp
qed

text \<open>
  C6: for a label set of size \<open>k\<close> and a label mask whose pixels all belong to it, every
  pixel of the output has exactly \<open>k\<close> channels, whichever labels the mask uses.
\<close>

theorem onehot_channels:
  assumes "\<forall>row\<in>set lmask. \<forall>v\<in>set row. v \<in> set lbls"
  shows "\<exists>oh. LabelToOnehot lbls lmask = Inr oh \<and> length oh = length lmask \<and>
           (\<forall>row\<in>set oh. \<forall>px\<in>set row. length px = length lbls)"
  using assms by (auto simp: LabelToOnehot_valid onehot_pixel_def)

text \<open>A mask that uses only the label 1 of \<open>(0, 1, 2)\<close> still has three channels per pixel.\<close>

theorem onehot_channels_witness:
  "\<exists>oh. LabelToOnehot [0, 1, 2] mask_ones = Inr oh \<and>
        oh = [[[0, 1, 0], [0, 1, 0]], [[0, 1, 0], [0, 1, 0]]] \<and>
        list_all (list_all (\<lambda>px. length px = 3)) oh"
proof -
  have h: "\<forall>row\<in>set mask_ones. \<forall>v\<in>set row. v \<in> set [0, 1, 2]"
    by (simp add: mask_ones_def)
  obtain oh where oh: "LabelToOnehot [0, 1, 2] mask_ones = Inr oh"
      "\<forall>row\<in>set oh. \<forall>px\<in>set row. length px = length [0, 1, 2 :: int]"
    using onehot_channels [OF h] by blast
  from oh(1) have "oh = [[[0, 1, 0], [0, 1, 0]], [[0, 1, 0], [0, 1, 0]]]"
    by (simp add: LabelToOnehot_def mask_ones_def onehot_pixel_def)
  moreover from oh(2) have "list_all (list_all (\<lambda>px. length px = 3)) oh"
    by (simp add: list_all_iff)
  ultimately show ?thesis
    using oh(1) by blast
qed

subsection \<open>The rebinding of \<open>labels\<close>\<close>

text \<open>
  C10: when the mask file is readable and the transform returns on it, running the cells
  in order ends with \<open>labels\<close> bound to the sorted distinct values of the inspected mask.
  The calls before the inspection cell's last statement received the configured
  \<open>(0, 1, 2)\<close>; \<open>n_labels\<close> keeps the value 3 and is what \<open>FCNs\<close> receives; the final
  \<open>visualize_model\<close> call receives the distinct values of the mask.
\<close>

theorem inspect_rebinds_labels:
  assumes "fs mask_name = Some lmask" and "onehot [0, 1, 2] lmask = Inr oh"
  shows "\<exists>s'. run_notebook fs onehot s = Inr s' \<and>
           labels s' = np_unique lmask \<and> n_labels s' = 3 \<and>
           calls s' = calls s @
             [LabelToOnehot_init [0, 1, 2], SegmentationDataset_init [0, 1, 2],
              LabelToOnehot_init [0, 1, 2], FCNs_init 3,
              visualize_model_call (np_unique lmask)]"
  using assms
  by (simp add: run_notebook_def cell_inspect_def cell_dataloaders_def cell_config_def
      cell_model_def cell_train_def imread_def Let_def)

text \<open>
  With a mask that holds only the labels 0 and 1, \<open>visualize_model\<close> receives \<open>[0, 1]\<close>,
  not the configured \<open>(0, 1, 2)\<close>.
\<close>

theorem inspect_rebinds_labels_witness:
  "mask_files mask_name = Some (Arr2 [[0, 1], [1, 0]]) \<and>
   run_notebook mask_files LabelToOnehot_call fresh =
     Inr \<lparr>crop_size = 224, labels = [0, 1], n_labels = 3, label_counts = [2, 2],
          calls = [LabelToOnehot_init [0, 1, 2], SegmentationDataset_init [0, 1, 2],
                   LabelToOnehot_init [0, 1, 2], FCNs_init 3, visualize_model_call [0, 1]]\<rparr>"
proof -
  have h1: "mask_files mask_name = Some (Arr2 [[0, 1], [1, 0]])"
    by (simp add: mask_files_def)
  have h2: "LabelToOnehot_call [0, 1, 2] (Arr2 [[0, 1], [1, 0]]) =
              Inr [[[1, 0, 0], [0, 1, 0]], [[0, 1, 0], [1, 0, 0]]]"
    by (simp add: LabelToOnehot_def onehot_pixel_def)
  obtain s' where s': "run_notebook mask_files LabelToOnehot_call fresh = Inr s'"
      "labels s' = np_unique (Arr2 [[0, 1], [1, 0]])" "n_labels s' = 3"
    using inspect_rebinds_labels
      [where fs = mask_files and onehot = LabelToOnehot_call and s = fresh, OF h1 h2]
    by blast
  have "run_notebook mask_files LabelToOnehot_call fresh =
     Inr \<lparr>crop_size = 224, labels = [0, 1], n_labels = 3, label_counts = [2, 2],
          calls = [LabelToOnehot_init [0, 1, 2], SegmentationDataset_init [0, 1, 2],
                   LabelToOnehot_init [0, 1, 2], FCNs_init 3, visualize_model_call [0, 1]]\<rparr>"
    by (simp add: run_notebook_def cell_inspect_def cell_dataloaders_def cell_config_def
        cell_model_def cell_train_def imread_def Let_def h1 LabelToOnehot_def onehot_pixel_def
        fresh_def np_unique_def np_unique_counts_def)
  then show ?thesis using h1 s' by simp
qed

end
